theory Spec2Isabelle
  imports Main
begin

section \<open>hookform-controller-proxy: a shallow embedding of \<^verbatim>\<open>src/index.tsx\<close>\<close>

text \<open>
  The module wraps react-hook-form's \<^verbatim>\<open>Controller\<close>. Its runtime part is three functions:
  \<^verbatim>\<open>createControllerProxyImpl\<close> (a \<^verbatim>\<open>Proxy\<close> with a \<^verbatim>\<open>get\<close> and an \<^verbatim>\<open>apply\<close> trap),
  \<^verbatim>\<open>FieldController\<close> (a component returning a \<^verbatim>\<open>Controller\<close> element) and
  \<^verbatim>\<open>flattenErrors\<close>. JavaScript strings are modelled as \<^typ>\<open>string\<close>, one \<^typ>\<open>char\<close> per
  code unit; thrown exceptions are the \<open>Inl\<close> side of a sum.
\<close>

subsection \<open>String and array primitives used by the module\<close>

text \<open>\<^verbatim>\<open>Array.prototype.join\<close> on an array of strings.\<close>

fun join_str :: "string \<Rightarrow> string list \<Rightarrow> string" where
  "join_str sep [] = []"
| "join_str sep [x] = x"
| "join_str sep (x # y # ys) = x @ sep @ join_str sep (y # ys)"

text \<open>\<^verbatim>\<open>String.prototype.endsWith(search)\<close>, with the default end position.\<close>

definition endsWith :: "string \<Rightarrow> string \<Rightarrow> bool" where
  "endsWith s search =
     (length search \<le> length s \<and> drop (length s - length search) s = search)"

text \<open>
  \<^verbatim>\<open>String.prototype.slice(start, end)\<close>: a negative index counts from the end, and both
  indices are clamped to the string.
\<close>

definition slice :: "string \<Rightarrow> int \<Rightarrow> int \<Rightarrow> string" where
  "slice s start fin =
     (let len = int (length s);
          from = (if start < 0 then max (len + start) 0 else min start len);
          to = (if fin < 0 then max (len + fin) 0 else min fin len)
      in take (nat (to - from)) (drop (nat from) s))"

definition optionalIndicator :: string where
  "optionalIndicator = ''$''"

subsection \<open>Property keys\<close>

text \<open>
  The \<^verbatim>\<open>get\<close> trap of a proxy receives a string or a symbol; \<^verbatim>\<open>String(step)\<close> leaves a
  string as it is and renders a symbol as \<^verbatim>\<open>Symbol(description)\<close>.
\<close>

datatype property_key = StringKey string | SymbolKey "string option"

fun js_String :: "property_key \<Rightarrow> string" where
  "js_String (StringKey s) = s"
| "js_String (SymbolKey None) = ''Symbol()''"
| "js_String (SymbolKey (Some d)) = ''Symbol('' @ d @ '')''"

subsection \<open>The store of path arrays\<close>

text \<open>
  Paths are JavaScript arrays, that is objects with an identity. The store lists every
  array the module has allocated: the array at address \<open>a\<close> is \<open>h ! a\<close>. The module
  allocates \<^verbatim>\<open>emptyPath = Object.freeze([])\<close> when it is loaded, and one new array
  for each \<^verbatim>\<open>[...path, String(step)]\<close>; it contains no statement that writes to an array.
\<close>

type_synonym addr = nat
type_synonym heap = "string list list"

definition emptyPath :: addr where
  "emptyPath = 0"

definition module_heap :: heap where
  "module_heap = [[]]"

definition alloc :: "string list \<Rightarrow> heap \<Rightarrow> addr \<times> heap" where
  "alloc xs h = (length h, h @ [xs])"

subsection \<open>JavaScript values of a validation-error structure\<close>

text \<open>
  \<open>Obj\<close> is a plain object, given by its own enumerable string-keyed properties in the
  order in which \<^verbatim>\<open>Object.values\<close> enumerates them. An array of errors behaves, for
  \<^verbatim>\<open>in\<close> and \<^verbatim>\<open>Object.values\<close>, like the plain object with its indices as keys.
\<close>

datatype jsval =
    Undefined
  | Null
  | Boolean bool
  | Str string
  | Obj "(string \<times> jsval) list"

datatype js_error = TypeError

fun truthy :: "jsval \<Rightarrow> bool" where
  "truthy Undefined = False"
| "truthy Null = False"
| "truthy (Boolean b) = b"
| "truthy (Str s) = (s \<noteq> [])"
| "truthy (Obj ps) = True"

text \<open>The \<^verbatim>\<open>in\<close> operator throws a TypeError when its right operand is not an object.\<close>

fun js_in :: "string \<Rightarrow> jsval \<Rightarrow> js_error + bool" where
  "js_in k (Obj ps) = Inr (k \<in> set (map fst ps))"
| "js_in k v = Inl TypeError"

fun js_get :: "jsval \<Rightarrow> string \<Rightarrow> jsval" where
  "js_get (Obj ps) k = (case map_of ps k of None \<Rightarrow> Undefined | Some v \<Rightarrow> v)"
| "js_get v k = Undefined"

fun object_values :: "jsval \<Rightarrow> jsval list" where
  "object_values (Obj ps) = map snd ps"
| "object_values v = []"

text \<open>
  \<^verbatim>\<open>Array.prototype.map\<close> with a callback that may throw: the first exception ends the
  traversal.
\<close>

fun array_map :: "('a \<Rightarrow> js_error + 'b) \<Rightarrow> 'a list \<Rightarrow> js_error + 'b list" where
  "array_map f [] = Inr []"
| "array_map f (x # xs) =
     (case f x of
        Inl e \<Rightarrow> Inl e
      | Inr y \<Rightarrow> (case array_map f xs of Inl e \<Rightarrow> Inl e | Inr ys \<Rightarrow> Inr (y # ys)))"

fun to_string :: "jsval \<Rightarrow> string" where
  "to_string Undefined = ''undefined''"
| "to_string Null = ''null''"
| "to_string (Boolean b) = (if b then ''true'' else ''false'')"
| "to_string (Str s) = s"
| "to_string (Obj ps) = ''[object Object]''"

text \<open>\<^verbatim>\<open>Array.prototype.join\<close> turns \<^verbatim>\<open>undefined\<close> and \<^verbatim>\<open>null\<close> into the empty string.\<close>

definition join_elem :: "jsval \<Rightarrow> string" where
  "join_elem v = (if v = Undefined \<or> v = Null then [] else to_string v)"

definition array_join :: "jsval list \<Rightarrow> string \<Rightarrow> string" where
  "array_join vs sep = join_str sep (map join_elem vs)"

lemma array_map_cong [fundef_cong]:
  "xs = ys \<Longrightarrow> (\<And>x. x \<in> set ys \<Longrightarrow> f x = g x) \<Longrightarrow> array_map f xs = array_map g ys"
  by (induction ys arbitrary: xs) (auto split: sum.splits)

lemma size_property_value:
  "v \<in> set (map snd ps) \<Longrightarrow> size v < Suc (size_list (size_prod (\<lambda>_. 0) size) ps)"
proof (induction ps)
  case Nil
  then show ?case by simp
next
  case (Cons p ps)
  show ?case
  proof (cases "v = snd p")
    case True
    then show ?thesis by (cases p) simp
  next
    case False
    with Cons.prems have "v \<in> set (map snd ps)" by auto
    from Cons.IH [OF this] show ?thesis by simp
  qed
qed

lemma size_object_values: "v \<in> set (object_values e) \<Longrightarrow> size v < size e"
  using size_property_value by (cases e) auto

subsection \<open>\<^verbatim>\<open>flattenErrors\<close>\<close>

function flattenErrors :: "jsval \<Rightarrow> js_error + jsval" where
  "flattenErrors errors =
     (if \<not> truthy errors then Inr Undefined
      else case js_in ''message'' errors of
        Inl e \<Rightarrow> Inl e
      | Inr True \<Rightarrow> Inr (js_get errors ''message'')
      | Inr False \<Rightarrow>
          (case array_map flattenErrors (object_values errors) of
             Inl e \<Rightarrow> Inl e
           | Inr rs \<Rightarrow> Inr (Str (array_join rs [CHR 0x0A]))))"
  by pat_completeness auto
termination
  by (relation "measure size") (auto simp: size_object_values)

declare flattenErrors.simps [simp del]

subsection \<open>React elements and the form object\<close>

datatype component = FieldControllerComponent | ControllerComponent

datatype 'p element = Element (el_type: component) (el_props: 'p)

text \<open>
  \<^verbatim>\<open>UseFormReturn\<close>: the module reads \<^verbatim>\<open>form.control\<close> only; the other members of the
  form object are the extension of the record.
\<close>

record 'c form =
  control :: 'c

record ('f, 'r) field_controller_props =
  fc_form :: 'f
  fc_name :: string
  fc_render :: 'r
  fc_required :: "bool option"

record ('c, 'r) controller_props =
  c_control :: 'c
  c_name :: string
  c_rules :: "(string \<times> bool option) list"
  c_render :: 'r

text \<open>What \<^verbatim>\<open>Controller\<close> hands to its render prop.\<close>

record ('v, 'c, 'b) field =
  f_value :: 'v
  f_onChange :: 'c
  f_onBlur :: 'b

record fieldState =
  fs_invalid :: bool
  fs_error :: jsval

record 'w event_target =
  t_value :: 'w
  t_name :: string

record 'w change_event =
  ev_type :: string
  ev_target :: "'w event_target"

text \<open>
  The object literal passed to the caller's render function, as the list of its members
  in source order.
\<close>

datatype ('v, 'b, 'h) prop_value =
    ValueProp 'v
  | NameProp string
  | OnBlurProp 'b
  | OnChangeProp 'h
  | ErrorProp jsval
  | RequiredProp "bool option"

subsection \<open>\<^verbatim>\<open>FieldController\<close>\<close>

text \<open>
  The arrow function given to \<^verbatim>\<open>Controller\<close> as its \<^verbatim>\<open>render\<close> prop; it closes over
  \<^verbatim>\<open>name\<close>, \<^verbatim>\<open>render\<close> and \<^verbatim>\<open>required\<close>. The members of the literal are evaluated in
  order, so an exception of \<^verbatim>\<open>flattenErrors\<close> leaves \<^verbatim>\<open>render\<close> uncalled.
\<close>

definition controller_render ::
  "string \<Rightarrow> ((string \<times> ('v, 'b, 'w \<Rightarrow> 'a) prop_value) list \<Rightarrow> 'e) \<Rightarrow> bool option \<Rightarrow>
   ('v, 'w change_event \<Rightarrow> 'a, 'b, 'y) field_scheme \<Rightarrow> 'z fieldState_scheme \<Rightarrow> js_error + 'e" where
  "controller_render name render required fld fs =
     (case (if fs_invalid fs then flattenErrors (fs_error fs) else Inr Undefined) of
        Inl e \<Rightarrow> Inl e
      | Inr err \<Rightarrow>
          Inr (render
            [(''value'', ValueProp (f_value fld)),
             (''name'', NameProp name),
             (''onBlur'', OnBlurProp (f_onBlur fld)),
             (''onChange'', OnChangeProp (\<lambda>newValue.
                f_onChange fld
                  \<lparr>ev_type = ''change'',
                   ev_target = \<lparr>t_value = newValue, t_name = name\<rparr>\<rparr>)),
             (''error'', ErrorProp err),
             (''required'', RequiredProp required)]))"

definition FieldController ::
  "(('c, 'x) form_scheme, (string \<times> ('v, 'b, 'w \<Rightarrow> 'a) prop_value) list \<Rightarrow> 'e)
     field_controller_props \<Rightarrow>
   ('c, ('v, 'w change_event \<Rightarrow> 'a, 'b) field \<Rightarrow> fieldState \<Rightarrow> js_error + 'e)
     controller_props element" where
  "FieldController props =
     Element ControllerComponent
       \<lparr>c_control = control (fc_form props),
        c_name = fc_name props,
        c_rules = [(''required'', fc_required props)],
        c_render = controller_render (fc_name props) (fc_render props) (fc_required props)\<rparr>"

subsection \<open>\<^verbatim>\<open>createControllerProxy\<close>\<close>

text \<open>
  A proxy is determined by what its handler closes over: the form and the path array.
  Its target is the shared \<^verbatim>\<open>noop\<close> function, which no trap reads.
\<close>

record 'f proxy =
  p_form :: 'f
  p_path :: addr

definition createControllerProxyImpl :: "'f \<Rightarrow> addr \<Rightarrow> 'f proxy" where
  "createControllerProxyImpl form path = \<lparr>p_form = form, p_path = path\<rparr>"

definition createControllerProxy :: "'f \<Rightarrow> 'f proxy" where
  "createControllerProxy form = createControllerProxyImpl form emptyPath"

text \<open>The \<^verbatim>\<open>get\<close> trap: \<^verbatim>\<open>createControllerProxyImpl(form, [...path, String(step)])\<close>.\<close>

definition proxy_get :: "'f proxy \<Rightarrow> property_key \<Rightarrow> heap \<Rightarrow> 'f proxy \<times> heap" where
  "proxy_get p step h =
     (let (a, h') = alloc ((h ! p_path p) @ [js_String step]) h
      in (createControllerProxyImpl (p_form p) a, h'))"

text \<open>The \<^verbatim>\<open>apply\<close> trap, called with the one argument \<^verbatim>\<open>render\<close>.\<close>

definition proxy_apply ::
  "'f proxy \<Rightarrow> 'r \<Rightarrow> heap \<Rightarrow> ('f, 'r) field_controller_props element" where
  "proxy_apply p render h =
     (let pathAsString = join_str ''.'' (h ! p_path p);
          isOptional = endsWith pathAsString optionalIndicator;
          name = (if isOptional then slice pathAsString 0 (- 1) else pathAsString)
      in Element FieldControllerComponent
           \<lparr>fc_form = p_form p, fc_name = name, fc_render = render,
            fc_required = Some (\<not> isOptional)\<rparr>)"

text \<open>
  \<^verbatim>\<open>proxy.k1. ... .kn\<close>: the property accesses of an expression, from left to right.
\<close>

fun accesses :: "'f proxy \<Rightarrow> property_key list \<Rightarrow> heap \<Rightarrow> 'f proxy \<times> heap" where
  "accesses p [] h = (p, h)"
| "accesses p (k # ks) h = (case proxy_get p k h of (p', h') \<Rightarrow> accesses p' ks h')"

text \<open>\<^verbatim>\<open>createControllerProxy(form).k1. ... .kn(render)\<close>.\<close>

definition call_path ::
  "'f \<Rightarrow> property_key list \<Rightarrow> 'r \<Rightarrow> heap \<Rightarrow> ('f, 'r) field_controller_props element" where
  "call_path form ks render h =
     (case accesses (createControllerProxy form) ks h of (p, h') \<Rightarrow> proxy_apply p render h')"

subsection \<open>Notions taken from the specification's wording\<close>

text \<open>
  The specification speaks of a variant of the proxy "with the optional-indicator handling
  erased". Following those words, \<open>proxy_apply_erased\<close> is the \<^verbatim>\<open>apply\<close> trap without the
  \<^verbatim>\<open>endsWith\<close> test: the name is the joined path and every field is required. It is
  compared with \<open>proxy_apply\<close>, which is the trap of the source.
\<close>

definition proxy_apply_erased ::
  "'f proxy \<Rightarrow> 'r \<Rightarrow> heap \<Rightarrow> ('f, 'r) field_controller_props element" where
  "proxy_apply_erased p render h =
     (let pathAsString = join_str ''.'' (h ! p_path p)
      in Element FieldControllerComponent
           \<lparr>fc_form = p_form p, fc_name = pathAsString, fc_render = render,
            fc_required = Some True\<rparr>)"

text \<open>
  A \<^verbatim>\<open>rules\<close> object "contributes no validation rules" when none of its members is set.
\<close>

definition no_rules :: "(string \<times> bool option) list \<Rightarrow> bool" where
  "no_rules rules = list_all (\<lambda>kv. snd kv = None) rules"

subsection \<open>A name for the object literal\<close>

text \<open>
  \<open>field_props\<close> abbreviates the object literal that \<open>controller_render\<close> passes to
  \<^verbatim>\<open>render\<close>, with \<open>err\<close> for the value of its \<^verbatim>\<open>error\<close> member.
\<close>

abbreviation field_props ::
  "string \<Rightarrow> bool option \<Rightarrow> ('v, 'w change_event \<Rightarrow> 'a, 'b, 'y) field_scheme \<Rightarrow> jsval \<Rightarrow>
   (string \<times> ('v, 'b, 'w \<Rightarrow> 'a) prop_value) list" where
  "field_props name required fld err \<equiv>
     [(''value'', ValueProp (f_value fld)),
      (''name'', NameProp name),
      (''onBlur'', OnBlurProp (f_onBlur fld)),
      (''onChange'', OnChangeProp (\<lambda>newValue.
         f_onChange fld
           \<lparr>ev_type = ''change'', ev_target = \<lparr>t_value = newValue, t_name = name\<rparr>\<rparr>)),
      (''error'', ErrorProp err),
      (''required'', RequiredProp required)]"

section \<open>Properties\<close>

subsection \<open>Strings and access sequences\<close>

lemma endsWith_optionalIndicator:
  "endsWith s optionalIndicator \<longleftrightarrow> s \<noteq> [] \<and> last s = CHR ''$''"
proof (cases s rule: rev_cases)
  case Nil
  then show ?thesis by (simp add: endsWith_def optionalIndicator_def)
next
  case (snoc xs x)
  then show ?thesis by (auto simp: endsWith_def optionalIndicator_def)
qed

lemma slice_all_but_last: "slice s 0 (- 1) = butlast s"
  by (cases s rule: rev_cases) (simp_all add: slice_def Let_def)

lemma accesses_spec:
  "p_path p < length h \<Longrightarrow> accesses p ks h = (p', h') \<Longrightarrow>
     p_form p' = p_form p \<and> p_path p' < length h' \<and>
     h' ! p_path p' = h ! p_path p @ map js_String ks \<and>
     length h \<le> length h' \<and> (\<forall>a < length h. h' ! a = h ! a)"
proof (induction ks arbitrary: p h)
  case Nil
  then show ?case by simp
next
  case (Cons k ks)
  obtain q g where step: "proxy_get p k h = (q, g)" by (cases "proxy_get p k h")
  from step have q: "p_form q = p_form p" "p_path q = length h"
    and g: "g = h @ [h ! p_path p @ [js_String k]]"
    by (auto simp: proxy_get_def alloc_def createControllerProxyImpl_def)
  from Cons.prems(2) step have rest: "accesses q ks g = (p', h')" by simp
  have "p_path q < length g" using q g by simp
  from Cons.IH [OF this rest] q g Cons.prems(1) show ?case
    by (auto simp: nth_append)
qed

lemma proxy_apply_props:
  "proxy_apply p render h =
     Element FieldControllerComponent
       \<lparr>fc_form = p_form p,
        fc_name = (let s = join_str ''.'' (h ! p_path p)
                   in if s \<noteq> [] \<and> last s = CHR ''$'' then butlast s else s),
        fc_render = render,
        fc_required = Some (\<not> (join_str ''.'' (h ! p_path p) \<noteq> [] \<and>
                                  last (join_str ''.'' (h ! p_path p)) = CHR ''$''))\<rparr>"
  by (simp add: proxy_apply_def Let_def endsWith_optionalIndicator slice_all_but_last)

subsection \<open>The branches of \<open>flattenErrors\<close>\<close>

lemma flattenErrors_falsy: "\<not> truthy e \<Longrightarrow> flattenErrors e = Inr Undefined"
  by (simp add: flattenErrors.simps)

lemma flattenErrors_leaf:
  "''message'' \<in> set (map fst ps) \<Longrightarrow> flattenErrors (Obj ps) = Inr (js_get (Obj ps) ''message'')"
  by (simp add: flattenErrors.simps)

lemma flattenErrors_branch:
  "''message'' \<notin> set (map fst ps) \<Longrightarrow>
   flattenErrors (Obj ps) =
     (case array_map flattenErrors (map snd ps) of
        Inl e \<Rightarrow> Inl e
      | Inr rs \<Rightarrow> Inr (Str (array_join rs [CHR 0x0A])))"
  by (subst flattenErrors.simps) simp

lemma flattenErrors_primitive:
  "truthy e \<Longrightarrow> (\<forall>ps. e \<noteq> Obj ps) \<Longrightarrow> flattenErrors e = Inl TypeError"
  by (cases e) (simp_all add: flattenErrors.simps)

lemma array_map_length: "array_map f xs = Inr ys \<Longrightarrow> length ys = length xs"
  by (induction xs arbitrary: ys) (auto split: sum.splits)

subsection \<open>The render closure\<close>

lemma controller_render_ok:
  "(if fs_invalid fs then flattenErrors (fs_error fs) else Inr Undefined) = Inr err \<Longrightarrow>
   controller_render name render required fld fs =
     Inr (render (field_props name required fld err))"
  by (simp add: controller_render_def)

lemma controller_render_returns:
  "controller_render name render required fld fs = Inr r \<Longrightarrow>
   \<exists>err. (if fs_invalid fs then flattenErrors (fs_error fs) else Inr Undefined) = Inr err \<and>
     r = render (field_props name required fld err)"
  unfolding controller_render_def by (auto split: sum.splits if_splits)

lemma controller_render_throws:
  "fs_invalid fs \<Longrightarrow> flattenErrors (fs_error fs) = Inl e \<Longrightarrow>
   controller_render name render required fld fs = Inl e"
  by (simp add: controller_render_def)

lemma controller_render_valid:
  "\<not> fs_invalid fs \<Longrightarrow> \<exists>r. controller_render name render required fld fs = Inr r"
  by (simp add: controller_render_def)

lemma FieldController_render:
  "c_render (el_props (FieldController props)) =
     controller_render (fc_name props) (fc_render props) (fc_required props)"
  by (simp add: FieldController_def)

lemma sets_differ_by_member: "x \<in> A \<Longrightarrow> x \<notin> B \<Longrightarrow> A \<noteq> B"
  by blast

subsection \<open>The traps on the store\<close>

lemma proxy_get_eq:
  "proxy_get p k h = (\<lparr>p_form = p_form p, p_path = length h\<rparr>, h @ [h ! p_path p @ [js_String k]])"
  by (simp add: proxy_get_def alloc_def createControllerProxyImpl_def)

lemma proxy_apply_same_path:
  "h' ! p_path p = h ! p_path p \<Longrightarrow> proxy_apply p render h' = proxy_apply p render h"
  by (simp add: proxy_apply_def)

section \<open>The claims\<close>

text \<open>
  C1: after any finite sequence of property accesses \<open>k1, ..., kn\<close> on the proxy returned
  by \<^verbatim>\<open>createControllerProxy(form)\<close>, calling the proxy with \<open>render\<close> returns a
  \<^verbatim>\<open>FieldController\<close> element whose \<open>name\<close> is the keys joined with a dot, one trailing
  \<open>$\<close> removed, whose \<open>form\<close> is the original form and whose \<open>render\<close> is the argument.
  The store is any store in which the module's \<^verbatim>\<open>emptyPath\<close> is allocated.
\<close>

theorem createControllerProxy_call_element:
  assumes "emptyPath < length h" and "h ! emptyPath = []"
  shows "el_type (call_path form ks render h) = FieldControllerComponent \<and>
         fc_name (el_props (call_path form ks render h)) =
           (let s = join_str ''.'' (map js_String ks)
            in if s \<noteq> [] \<and> last s = CHR ''$'' then butlast s else s) \<and>
         fc_form (el_props (call_path form ks render h)) = form \<and>
         fc_render (el_props (call_path form ks render h)) = render"
proof -
  obtain p h' where acc: "accesses (createControllerProxy form) ks h = (p, h')"
    by (cases "accesses (createControllerProxy form) ks h")
  have root: "p_path (createControllerProxy form) < length h"
    "p_form (createControllerProxy form) = form"
    "h ! p_path (createControllerProxy form) = []"
    using assms by (simp_all add: createControllerProxy_def createControllerProxyImpl_def)
  from accesses_spec [OF root(1) acc] root
  have "p_form p = form" "h' ! p_path p = map js_String ks" by simp_all
  moreover have "call_path form ks render h = proxy_apply p render h'"
    by (simp add: call_path_def acc)
  ultimately show ?thesis by (simp add: proxy_apply_props)
qed

theorem createControllerProxy_call_element_witness:
  "emptyPath < length module_heap \<and> module_heap ! emptyPath = [] \<and>
   call_path \<lparr>control = ()\<rparr> [StringKey ''user'', StringKey ''email$''] () module_heap =
     Element FieldControllerComponent
       \<lparr>fc_form = \<lparr>control = ()\<rparr>, fc_name = ''user.email'', fc_render = (),
        fc_required = Some False\<rparr> \<and>
   fc_name (el_props (call_path \<lparr>control = ()\<rparr> [StringKey ''user'', StringKey ''email$''] ()
      module_heap)) =
     (let s = join_str ''.'' (map js_String [StringKey ''user'', StringKey ''email$''])
      in if s \<noteq> [] \<and> last s = CHR ''$'' then butlast s else s)"
proof -
  have h: "emptyPath < length module_heap" "module_heap ! emptyPath = []"
    by (simp_all add: emptyPath_def module_heap_def)
  have "call_path \<lparr>control = ()\<rparr> [StringKey ''user'', StringKey ''email$''] () module_heap =
     Element FieldControllerComponent
       \<lparr>fc_form = \<lparr>control = ()\<rparr>, fc_name = ''user.email'', fc_render = (),
        fc_required = Some False\<rparr>"
    by (simp add: call_path_def createControllerProxy_def createControllerProxyImpl_def
        proxy_get_def alloc_def emptyPath_def module_heap_def proxy_apply_def endsWith_def
        optionalIndicator_def slice_def Let_def)
  with h createControllerProxy_call_element [OF h, of "\<lparr>control = ()\<rparr>"
      "[StringKey ''user'', StringKey ''email$'']" "()"]
  show ?thesis by simp
qed

text \<open>
  C2: for every path, with \<open>s\<close> its dot-joined string, the \<^verbatim>\<open>required\<close> flag is true
  exactly when \<open>s\<close> does not end with \<open>$\<close>. When it does, the name given to the
  library's \<^verbatim>\<open>Controller\<close> is \<open>s\<close> without that one character and the flag is false. The
  flag reaches the caller's render function unchanged whenever \<^verbatim>\<open>Controller\<close> renders the
  field, and a valid field is always rendered.
\<close>

theorem required_iff_no_optional_indicator:
  "(let s = join_str ''.'' (h ! p_path p);
        opt = (s \<noteq> [] \<and> last s = CHR ''$'');
        fc = el_props (proxy_apply p render h);
        cp = el_props (FieldController fc)
    in fc_required fc = Some (\<not> opt) \<and>
       (if opt then s = c_name cp @ ''$'' else c_name cp = s) \<and>
       fc_name fc = c_name cp \<and>
       (\<forall>r. c_render cp fld fs = Inr r \<longrightarrow>
          (\<exists>props. r = render props \<and>
             map_of props ''required'' = Some (RequiredProp (Some (\<not> opt))))) \<and>
       (\<not> fs_invalid fs \<longrightarrow> (\<exists>r. c_render cp fld fs = Inr r)))"
proof -
  define s where "s = join_str ''.'' (h ! p_path p)"
  define opt where "opt = (s \<noteq> [] \<and> last s = CHR ''$'')"
  define nm where "nm = (if opt then butlast s else s)"
  have fc: "el_props (proxy_apply p render h) =
      \<lparr>fc_form = p_form p, fc_name = nm, fc_render = render, fc_required = Some (\<not> opt)\<rparr>"
    by (simp add: proxy_apply_props s_def opt_def nm_def Let_def)
  have cp: "el_props (FieldController (el_props (proxy_apply p render h))) =
      \<lparr>c_control = control (p_form p), c_name = nm, c_rules = [(''required'', Some (\<not> opt))],
       c_render = controller_render nm render (Some (\<not> opt))\<rparr>"
    by (simp add: FieldController_def fc)
  have strip: "if opt then s = nm @ ''$'' else nm = s"
  proof (cases opt)
    case True
    then have ne: "s \<noteq> []" and l: "last s = CHR ''$''" by (simp_all add: opt_def)
    have "s = butlast s @ [last s]" by (rule append_butlast_last_id [OF ne, symmetric])
    then have "s = butlast s @ ''$''" by (simp only: l)
    with True show ?thesis by (simp add: nm_def)
  next
    case False
    then show ?thesis by (simp add: nm_def)
  qed
  have rend: "\<exists>props. r = render props \<and>
        map_of props ''required'' = Some (RequiredProp (Some (\<not> opt)))"
    if "controller_render nm render (Some (\<not> opt)) fld fs = Inr r" for r
  proof -
    from controller_render_returns [OF that]
    obtain err where r: "r = render (field_props nm (Some (\<not> opt)) fld err)" by blast
    show ?thesis
      by (intro exI [of _ "field_props nm (Some (\<not> opt)) fld err"]) (simp add: r)
  qed
  have total: "\<not> fs_invalid fs \<longrightarrow>
      (\<exists>r. controller_render nm render (Some (\<not> opt)) fld fs = Inr r)"
    by (simp add: controller_render_valid)
  have A: "fc_required (el_props (proxy_apply p render h)) = Some (\<not> opt)"
    and B: "fc_name (el_props (proxy_apply p render h)) = nm"
    by (simp_all add: fc)
  have C: "c_name (el_props (FieldController (el_props (proxy_apply p render h)))) = nm"
    and D: "c_render (el_props (FieldController (el_props (proxy_apply p render h)))) =
      controller_render nm render (Some (\<not> opt))"
    by (simp_all add: cp)
  show ?thesis
    unfolding Let_def s_def [symmetric] opt_def [symmetric] A B C D
    using strip rend total by simp
qed

theorem required_iff_no_optional_indicator_witness:
  "c_render (el_props (FieldController (el_props
      (proxy_apply \<lparr>p_form = \<lparr>control = ()\<rparr>, p_path = 1\<rparr>
         (\<lambda>props :: (string \<times> (string, unit, string \<Rightarrow> unit) prop_value) list.
            map_of props ''required'')
         [[], [''user'', ''nick$'']]))))
     \<lparr>f_value = ''x'', f_onChange = (\<lambda>e :: string change_event. ()), f_onBlur = ()\<rparr>
     \<lparr>fs_invalid = False, fs_error = Undefined\<rparr> = Inr (Some (RequiredProp (Some False))) \<and>
   c_name (el_props (FieldController (el_props
      (proxy_apply \<lparr>p_form = \<lparr>control = ()\<rparr>, p_path = 1\<rparr>
         (\<lambda>props :: (string \<times> (string, unit, string \<Rightarrow> unit) prop_value) list.
            map_of props ''required'')
         [[], [''user'', ''nick$'']])))) = ''user.nick''"
proof -
  let ?p = "\<lparr>p_form = \<lparr>control = ()\<rparr>, p_path = 1\<rparr>"
  let ?render = "\<lambda>props :: (string \<times> (string, unit, string \<Rightarrow> unit) prop_value) list.
            map_of props ''required''"
  let ?h = "[[], [''user'', ''nick$'']]"
  let ?fld = "\<lparr>f_value = ''x'', f_onChange = (\<lambda>e :: string change_event. ()), f_onBlur = ()\<rparr>"
  let ?fs = "\<lparr>fs_invalid = False, fs_error = Undefined\<rparr>"
  let ?cp = "el_props (FieldController (el_props (proxy_apply ?p ?render ?h)))"
  obtain r where r: "c_render ?cp ?fld ?fs = Inr r"
    by (simp add: FieldController_def controller_render_def)
  from required_iff_no_optional_indicator [of ?h ?p ?render ?fld ?fs]
  have inst: "''user.nick$'' = c_name ?cp @ ''$''"
    "\<forall>r. c_render ?cp ?fld ?fs = Inr r \<longrightarrow>
       (\<exists>props. r = ?render props \<and> map_of props ''required'' = Some (RequiredProp (Some False)))"
    by (simp_all add: Let_def)
  from inst(2) r have "r = Some (RequiredProp (Some False))" by auto
  with r inst(1) show ?thesis by simp
qed

text \<open>
  C3: \<^verbatim>\<open>flattenErrors\<close> is claimed to turn every validation-error structure into a string
  (or \<^verbatim>\<open>undefined\<close>): absent gives \<^verbatim>\<open>undefined\<close>, an object with a \<^verbatim>\<open>message\<close> gives that
  message, any other object gives its flattened property values joined with newlines.
  The first two cases hold (\<open>flattenErrors_falsy\<close>, \<open>flattenErrors_leaf\<close>). The third
  does not return for a field error without a \<^verbatim>\<open>message\<close> member, such as
  \<^verbatim>\<open>{ type: "custom" }\<close>: the recursion reaches the string \<^verbatim>\<open>"custom"\<close>, and the
  \<^verbatim>\<open>in\<close> operator throws a TypeError on a string.
\<close>

theorem flattenErrors_missing_message_throws:
  "flattenErrors (Obj [(''type'', Str ''custom'')]) = Inl TypeError"
  by (simp add: flattenErrors_branch flattenErrors_primitive)

text \<open>
  C4: \<^verbatim>\<open>FieldController\<close> returns a \<^verbatim>\<open>Controller\<close> element, and when \<^verbatim>\<open>Controller\<close> calls
  that element's \<^verbatim>\<open>render\<close> prop the caller's render function receives an \<^verbatim>\<open>error\<close>
  member as follows. When the field state is not invalid it is \<^verbatim>\<open>undefined\<close>, and
  \<^verbatim>\<open>flattenErrors\<close> of an absent error is \<^verbatim>\<open>undefined\<close> too. When the field state is
  invalid it is the result of \<^verbatim>\<open>flattenErrors\<close> on the field's error; an exception of
  \<^verbatim>\<open>flattenErrors\<close> is the exception of the render prop.
\<close>

theorem error_prop_absent_unless_invalid:
  "el_type (FieldController props) = ControllerComponent \<and>
   (\<not> fs_invalid fs \<longrightarrow>
      (\<exists>ps. c_render (el_props (FieldController props)) fld fs = Inr (fc_render props ps) \<and>
         map_of ps ''error'' = Some (ErrorProp Undefined))) \<and>
   flattenErrors Undefined = Inr Undefined \<and>
   (fs_invalid fs \<longrightarrow>
      (\<forall>err. flattenErrors (fs_error fs) = Inr err \<longrightarrow>
         (\<exists>ps. c_render (el_props (FieldController props)) fld fs = Inr (fc_render props ps) \<and>
            map_of ps ''error'' = Some (ErrorProp err))) \<and>
      (\<forall>e. flattenErrors (fs_error fs) = Inl e \<longrightarrow>
         c_render (el_props (FieldController props)) fld fs = Inl e))"
proof (intro conjI impI allI)
  show "el_type (FieldController props) = ControllerComponent"
    by (simp add: FieldController_def)
next
  assume "\<not> fs_invalid fs"
  then show "\<exists>ps. c_render (el_props (FieldController props)) fld fs =
         Inr (fc_render props ps) \<and>
         map_of ps ''error'' = Some (ErrorProp Undefined)"
    by (intro exI [of _ "field_props (fc_name props) (fc_required props) fld Undefined"])
      (simp add: FieldController_render controller_render_ok)
next
  show "flattenErrors Undefined = Inr Undefined" by (simp add: flattenErrors_falsy)
next
  fix err assume "fs_invalid fs" "flattenErrors (fs_error fs) = Inr err"
  then show "\<exists>ps. c_render (el_props (FieldController props)) fld fs =
            Inr (fc_render props ps) \<and>
            map_of ps ''error'' = Some (ErrorProp err)"
    by (intro exI [of _ "field_props (fc_name props) (fc_required props) fld err"])
      (simp add: FieldController_render controller_render_ok)
next
  fix e assume "fs_invalid fs" "flattenErrors (fs_error fs) = Inl e"
  then show "c_render (el_props (FieldController props)) fld fs = Inl e"
    by (simp add: FieldController_render controller_render_throws)
qed

theorem error_prop_absent_unless_invalid_witness:
  "\<not> fs_invalid \<lparr>fs_invalid = False, fs_error = Undefined\<rparr> \<and>
   c_render (el_props (FieldController
       \<lparr>fc_form = \<lparr>control = ()\<rparr>, fc_name = ''email'',
        fc_render = (\<lambda>ps :: (string \<times> (string, unit, string \<Rightarrow> unit) prop_value) list.
           map_of ps ''error''),
        fc_required = Some True\<rparr>))
     \<lparr>f_value = ''x'', f_onChange = (\<lambda>e :: string change_event. ()), f_onBlur = ()\<rparr>
     \<lparr>fs_invalid = False, fs_error = Undefined\<rparr> = Inr (Some (ErrorProp Undefined)) \<and>
   fs_invalid \<lparr>fs_invalid = True,
     fs_error = Obj [(''type'', Str ''min''), (''message'', Str ''Too short'')]\<rparr> \<and>
   flattenErrors (Obj [(''type'', Str ''min''), (''message'', Str ''Too short'')]) =
     Inr (Str ''Too short'') \<and>
   c_render (el_props (FieldController
       \<lparr>fc_form = \<lparr>control = ()\<rparr>, fc_name = ''email'',
        fc_render = (\<lambda>ps :: (string \<times> (string, unit, string \<Rightarrow> unit) prop_value) list.
           map_of ps ''error''),
        fc_required = Some True\<rparr>))
     \<lparr>f_value = ''x'', f_onChange = (\<lambda>e :: string change_event. ()), f_onBlur = ()\<rparr>
     \<lparr>fs_invalid = True,
      fs_error = Obj [(''type'', Str ''min''), (''message'', Str ''Too short'')]\<rparr> =
     Inr (Some (ErrorProp (Str ''Too short'')))"
proof -
  let ?props = "\<lparr>fc_form = \<lparr>control = ()\<rparr>, fc_name = ''email'',
        fc_render = (\<lambda>ps :: (string \<times> (string, unit, string \<Rightarrow> unit) prop_value) list.
           map_of ps ''error''),
        fc_required = Some True\<rparr>"
  let ?f = "\<lparr>f_value = ''x'', f_onChange = (\<lambda>e :: string change_event. ()), f_onBlur = ()\<rparr>"
  let ?bad = "\<lparr>fs_invalid = True,
      fs_error = Obj [(''type'', Str ''min''), (''message'', Str ''Too short'')]\<rparr>"
  have leaf: "flattenErrors (Obj [(''type'', Str ''min''), (''message'', Str ''Too short'')]) =
     Inr (Str ''Too short'')"
    by (simp add: flattenErrors_leaf)
  from error_prop_absent_unless_invalid
    [of ?props "\<lparr>fs_invalid = False, fs_error = Undefined\<rparr>" ?f]
  have 1: "c_render (el_props (FieldController ?props)) ?f
     \<lparr>fs_invalid = False, fs_error = Undefined\<rparr> = Inr (Some (ErrorProp Undefined))"
    by auto
  from error_prop_absent_unless_invalid [of ?props ?bad ?f] leaf
  have 2: "c_render (el_props (FieldController ?props)) ?f ?bad =
     Inr (Some (ErrorProp (Str ''Too short'')))"
    by auto
  from 1 2 leaf show ?thesis by simp
qed

text \<open>
  C5: the \<^verbatim>\<open>onChange\<close> member that \<^verbatim>\<open>FieldController\<close> gives to the caller's render
  function is a value setter: called with \<open>v\<close>, it is one call of the library's
  \<^verbatim>\<open>field.onChange\<close> on the event \<^verbatim>\<open>{ type: "change", target: { value: v, name } }\<close>.
  \<open>name\<close> is the component's \<^verbatim>\<open>name\<close> prop, which is also the name given to
  \<^verbatim>\<open>Controller\<close>; for a field made by the proxy it is the dot-joined path, one trailing
  \<open>$\<close> removed. A valid field is always rendered.
\<close>

theorem onChange_sets_value:
  "c_name (el_props (FieldController props)) = fc_name props \<and>
   (c_render (el_props (FieldController props)) fld fs = Inr r \<longrightarrow>
     (\<exists>ps handler. r = fc_render props ps \<and>
        map_of ps ''onChange'' = Some (OnChangeProp handler) \<and>
        (\<forall>v. handler v =
           f_onChange fld
             \<lparr>ev_type = ''change'',
              ev_target = \<lparr>t_value = v, t_name = fc_name props\<rparr>\<rparr>))) \<and>
   (\<not> fs_invalid fs \<longrightarrow>
      (\<exists>r. c_render (el_props (FieldController props)) fld fs = Inr r)) \<and>
   fc_name (el_props (proxy_apply p render h)) =
     (let s = join_str ''.'' (h ! p_path p)
      in if s \<noteq> [] \<and> last s = CHR ''$'' then butlast s else s)"
proof (intro conjI impI)
  show "c_name (el_props (FieldController props)) = fc_name props"
    by (simp add: FieldController_def)
next
  assume "c_render (el_props (FieldController props)) fld fs = Inr r"
  then have "controller_render (fc_name props) (fc_render props) (fc_required props) fld fs =
      Inr r"
    by (simp add: FieldController_render)
  from controller_render_returns [OF this]
  obtain err where
    r: "r = fc_render props (field_props (fc_name props) (fc_required props) fld err)"
    by blast
  show "\<exists>ps handler. r = fc_render props ps \<and>
        map_of ps ''onChange'' = Some (OnChangeProp handler) \<and>
        (\<forall>v. handler v =
           f_onChange fld
             \<lparr>ev_type = ''change'',
              ev_target = \<lparr>t_value = v, t_name = fc_name props\<rparr>\<rparr>)"
    by (intro exI [of _ "field_props (fc_name props) (fc_required props) fld err"]
        exI [of _ "\<lambda>newValue. f_onChange fld
           \<lparr>ev_type = ''change'',
            ev_target = \<lparr>t_value = newValue, t_name = fc_name props\<rparr>\<rparr>"])
      (simp add: r)
next
  assume "\<not> fs_invalid fs"
  then show "\<exists>r. c_render (el_props (FieldController props)) fld fs = Inr r"
    by (simp add: FieldController_render controller_render_valid)
next
  show "fc_name (el_props (proxy_apply p render h)) =
     (let s = join_str ''.'' (h ! p_path p)
      in if s \<noteq> [] \<and> last s = CHR ''$'' then butlast s else s)"
    by (simp add: proxy_apply_props)
qed

text \<open>
  The witness renders the element of \<^verbatim>\<open>createControllerProxy(form).user.age(render)\<close>. It
  takes for the library's \<^verbatim>\<open>onChange\<close> a recorder, which appends the event it receives to
  a log, and for \<^verbatim>\<open>render\<close> the function that calls the handler it is given with the value
  7 on the empty log: the log then holds exactly one event, named \<^verbatim>\<open>user.age\<close>.
\<close>

theorem onChange_sets_value_witness:
  "c_render (el_props (FieldController (el_props
      (call_path \<lparr>control = ()\<rparr> [StringKey ''user'', StringKey ''age'']
         (\<lambda>ps. case map_of ps ''onChange'' of
            Some (OnChangeProp handler) \<Rightarrow> handler (7 :: nat) [])
         module_heap))))
     \<lparr>f_value = (3 :: nat), f_onChange = (\<lambda>e log. log @ [e]), f_onBlur = ()\<rparr>
     \<lparr>fs_invalid = False, fs_error = Undefined\<rparr> =
   Inr [\<lparr>ev_type = ''change'', ev_target = \<lparr>t_value = 7, t_name = ''user.age''\<rparr>\<rparr>]"
proof -
  let ?render = "\<lambda>ps :: (string \<times> (nat, unit,
       nat \<Rightarrow> nat change_event list \<Rightarrow> nat change_event list) prop_value) list.
     case map_of ps ''onChange'' of Some (OnChangeProp handler) \<Rightarrow> handler (7 :: nat) []"
  let ?props = "el_props (call_path \<lparr>control = ()\<rparr> [StringKey ''user'', StringKey ''age'']
     ?render module_heap)"
  let ?fld = "\<lparr>f_value = (3 :: nat),
     f_onChange = (\<lambda>(e :: nat change_event) log. log @ [e]), f_onBlur = ()\<rparr>"
  let ?fs = "\<lparr>fs_invalid = False, fs_error = Undefined\<rparr>"
  have props: "?props =
      \<lparr>fc_form = \<lparr>control = ()\<rparr>, fc_name = ''user.age'', fc_render = ?render,
       fc_required = Some True\<rparr>"
    by (simp add: call_path_def createControllerProxy_def createControllerProxyImpl_def
        proxy_get_def alloc_def emptyPath_def module_heap_def proxy_apply_def endsWith_def
        optionalIndicator_def Let_def)
  obtain r where r: "c_render (el_props (FieldController ?props)) ?fld ?fs = Inr r"
    by (simp add: FieldController_def controller_render_def)
  from onChange_sets_value [of ?props ?fld ?fs r, THEN conjunct2, THEN conjunct1] r
  obtain ps handler where "r = fc_render ?props ps"
    "map_of ps ''onChange'' = Some (OnChangeProp handler)"
    "\<forall>v. handler v = f_onChange ?fld
        \<lparr>ev_type = ''change'', ev_target = \<lparr>t_value = v, t_name = fc_name ?props\<rparr>\<rparr>"
    by blast
  then have "r = [\<lparr>ev_type = ''change'', ev_target = \<lparr>t_value = 7, t_name = ''user.age''\<rparr>\<rparr>]"
    by (simp add: props)
  with r show ?thesis by simp
qed

text \<open>
  C6, as claimed: the adapter contributes no validation rule when it registers the
  field's controller. It fails for the required field \<^verbatim>\<open>email\<close>: the \<^verbatim>\<open>rules\<close> object
  given to \<^verbatim>\<open>Controller\<close> sets \<^verbatim>\<open>required\<close> to true.
\<close>

theorem adapter_no_rules_counterexample:
  "\<not> no_rules (c_rules (el_props (FieldController (el_props
      (call_path \<lparr>control = ()\<rparr> [StringKey ''email'']
         (\<lambda>props :: (string \<times> (string, unit, string \<Rightarrow> unit) prop_value) list. ())
         module_heap)))))"
  by (simp add: no_rules_def FieldController_def call_path_def createControllerProxy_def
      createControllerProxyImpl_def proxy_get_def alloc_def emptyPath_def module_heap_def
      proxy_apply_def endsWith_def optionalIndicator_def Let_def)

text \<open>
  C6, amended: the adapter gives \<^verbatim>\<open>Controller\<close> exactly one rule, \<^verbatim>\<open>required\<close>, whose value
  is the field's \<^verbatim>\<open>required\<close> flag. The \<^verbatim>\<open>rules\<close> object sets no rule only when that flag is
  \<^verbatim>\<open>undefined\<close>; for a field made by the proxy the flag is true or false, true exactly when
  the dot-joined path does not end with \<open>$\<close>.
\<close>

theorem adapter_contributes_required_rule:
  "c_rules (el_props (FieldController props)) = [(''required'', fc_required props)] \<and>
   (no_rules (c_rules (el_props (FieldController props))) \<longleftrightarrow> fc_required props = None) \<and>
   (let s = join_str ''.'' (h ! p_path p)
    in c_rules (el_props (FieldController (el_props (proxy_apply p render h)))) =
         [(''required'', Some (\<not> (s \<noteq> [] \<and> last s = CHR ''$'')))])"
  by (simp add: FieldController_def no_rules_def proxy_apply_props Let_def)

theorem adapter_contributes_required_rule_witness:
  "c_rules (el_props (FieldController (el_props
      (proxy_apply \<lparr>p_form = \<lparr>control = ()\<rparr>, p_path = 1\<rparr>
         (\<lambda>props :: (string \<times> (string, unit, string \<Rightarrow> unit) prop_value) list. ())
         [[], [''user'', ''email'']])))) = [(''required'', Some True)]"
  using adapter_contributes_required_rule
    [of _ "[[], [''user'', ''email'']]" "\<lparr>p_form = \<lparr>control = ()\<rparr>, p_path = 1\<rparr>"
      "\<lambda>props :: (string \<times> (string, unit, string \<Rightarrow> unit) prop_value) list. ()",
      THEN conjunct2, THEN conjunct2]
  by (simp add: Let_def)

text \<open>
  C7, as claimed: the proxy produces the same field name and required flag as the variant
  with the optional-indicator handling erased. It fails for \<^verbatim>\<open>proxy.email$\<close>, whose path
  array is the second array of the store after that access.
\<close>

theorem optional_indicator_erased_counterexample:
  "accesses (createControllerProxy \<lparr>control = ()\<rparr>) [StringKey ''email$''] module_heap =
     (\<lparr>p_form = \<lparr>control = ()\<rparr>, p_path = 1\<rparr>, [[], [''email$'']]) \<and>
   proxy_apply \<lparr>p_form = \<lparr>control = ()\<rparr>, p_path = 1\<rparr> () [[], [''email$'']] \<noteq>
   proxy_apply_erased \<lparr>p_form = \<lparr>control = ()\<rparr>, p_path = 1\<rparr> () [[], [''email$'']]"
  by (simp add: createControllerProxy_def createControllerProxyImpl_def proxy_get_def alloc_def
      emptyPath_def module_heap_def proxy_apply_def proxy_apply_erased_def endsWith_def
      optionalIndicator_def Let_def)

text \<open>
  C7, amended: the optional indicator is read when the proxy is called. The proxy and
  the erased variant return the same element exactly for the paths whose dot-joined string
  does not end with \<open>$\<close>. For a path that ends with \<open>$\<close> the proxy's name is the erased
  variant's name without that character, and its required flag is false where the
  erased variant's is true.
\<close>

theorem optional_indicator_runtime_effect:
  "(let s = join_str ''.'' (h ! p_path p);
        opt = (s \<noteq> [] \<and> last s = CHR ''$'')
    in (proxy_apply p render h = proxy_apply_erased p render h \<longleftrightarrow> \<not> opt) \<and>
       (opt \<longrightarrow>
          fc_name (el_props (proxy_apply p render h)) @ ''$'' =
            fc_name (el_props (proxy_apply_erased p render h)) \<and>
          fc_required (el_props (proxy_apply p render h)) = Some False \<and>
          fc_required (el_props (proxy_apply_erased p render h)) = Some True))"
proof -
  have "butlast s @ ''$'' = s" if "s \<noteq> []" "last s = CHR ''$''" for s :: string
    using append_butlast_last_id [OF that(1)] by (simp only: that(2))
  then show ?thesis
    by (simp add: proxy_apply_props proxy_apply_erased_def Let_def)
qed

theorem optional_indicator_runtime_effect_witness:
  "proxy_apply \<lparr>p_form = \<lparr>control = ()\<rparr>, p_path = 1\<rparr> () [[], [''user'', ''nick$'']] =
     Element FieldControllerComponent
       \<lparr>fc_form = \<lparr>control = ()\<rparr>, fc_name = ''user.nick'', fc_render = (),
        fc_required = Some False\<rparr> \<and>
   proxy_apply_erased \<lparr>p_form = \<lparr>control = ()\<rparr>, p_path = 1\<rparr> () [[], [''user'', ''nick$'']] =
     Element FieldControllerComponent
       \<lparr>fc_form = \<lparr>control = ()\<rparr>, fc_name = ''user.nick$'', fc_render = (),
        fc_required = Some True\<rparr> \<and>
   proxy_apply \<lparr>p_form = \<lparr>control = ()\<rparr>, p_path = 2\<rparr> ()
     [[], [''user''], [''user'', ''email'']] =
   proxy_apply_erased \<lparr>p_form = \<lparr>control = ()\<rparr>, p_path = 2\<rparr> ()
     [[], [''user''], [''user'', ''email'']]"
proof -
  have a: "proxy_apply \<lparr>p_form = \<lparr>control = ()\<rparr>, p_path = 1\<rparr> () [[], [''user'', ''nick$'']] =
     Element FieldControllerComponent
       \<lparr>fc_form = \<lparr>control = ()\<rparr>, fc_name = ''user.nick'', fc_render = (),
        fc_required = Some False\<rparr>"
    by (simp add: proxy_apply_def endsWith_def optionalIndicator_def slice_def Let_def)
  have b: "proxy_apply_erased \<lparr>p_form = \<lparr>control = ()\<rparr>, p_path = 1\<rparr> ()
      [[], [''user'', ''nick$'']] =
     Element FieldControllerComponent
       \<lparr>fc_form = \<lparr>control = ()\<rparr>, fc_name = ''user.nick$'', fc_render = (),
        fc_required = Some True\<rparr>"
    by (simp add: proxy_apply_erased_def)
  from optional_indicator_runtime_effect
    [of "[[], [''user''], [''user'', ''email'']]"
      "\<lparr>p_form = \<lparr>control = ()\<rparr>, p_path = 2\<rparr>" "()"]
  have "proxy_apply \<lparr>p_form = \<lparr>control = ()\<rparr>, p_path = 2\<rparr> ()
      [[], [''user''], [''user'', ''email'']] =
   proxy_apply_erased \<lparr>p_form = \<lparr>control = ()\<rparr>, p_path = 2\<rparr> ()
      [[], [''user''], [''user'', ''email'']]"
    by (simp add: Let_def)
  with a b show ?thesis by simp
qed

text \<open>
  C8, as claimed: the object given to the render function has exactly the five members
  \<^verbatim>\<open>value\<close>, \<^verbatim>\<open>onChange\<close>, \<^verbatim>\<open>onBlur\<close>, \<^verbatim>\<open>error\<close> and \<^verbatim>\<open>required\<close>. It fails for any field,
  here \<^verbatim>\<open>email\<close> rendered by \<^verbatim>\<open>FieldController\<close>: the object also has the member \<^verbatim>\<open>name\<close>.
\<close>

theorem render_props_five_members_counterexample:
  "c_render (el_props (FieldController
       \<lparr>fc_form = \<lparr>control = ()\<rparr>, fc_name = ''email'',
        fc_render = (\<lambda>ps :: (string \<times> (string, unit, string \<Rightarrow> unit) prop_value) list.
           set (map fst ps)),
        fc_required = Some True\<rparr>))
     \<lparr>f_value = ''x'', f_onChange = (\<lambda>e :: string change_event. ()), f_onBlur = ()\<rparr>
     \<lparr>fs_invalid = False, fs_error = Undefined\<rparr> \<noteq>
   Inr {''value'', ''onChange'', ''onBlur'', ''error'', ''required''}"
proof -
  have a: "''name'' \<in> {''value'', ''name'', ''onBlur'', ''onChange'', ''error'', ''required''}"
    by simp
  have b: "''name'' \<notin> {''value'', ''onChange'', ''onBlur'', ''error'', ''required''}"
    by simp
  have "c_render (el_props (FieldController
       \<lparr>fc_form = \<lparr>control = ()\<rparr>, fc_name = ''email'',
        fc_render = (\<lambda>ps :: (string \<times> (string, unit, string \<Rightarrow> unit) prop_value) list.
           set (map fst ps)),
        fc_required = Some True\<rparr>))
     \<lparr>f_value = ''x'', f_onChange = (\<lambda>e :: string change_event. ()), f_onBlur = ()\<rparr>
     \<lparr>fs_invalid = False, fs_error = Undefined\<rparr> =
   Inr {''value'', ''name'', ''onBlur'', ''onChange'', ''error'', ''required''}"
    by (simp add: FieldController_def controller_render_def)
  with sets_differ_by_member [OF a b] show ?thesis
    by (simp only: sum.inject not_False_eq_True)
qed

text \<open>
  C8, amended: the object that \<^verbatim>\<open>FieldController\<close> gives to the render function has
  exactly six members, in this order: \<^verbatim>\<open>value\<close>, \<^verbatim>\<open>name\<close>, \<^verbatim>\<open>onBlur\<close>, \<^verbatim>\<open>onChange\<close>,
  \<^verbatim>\<open>error\<close> and \<^verbatim>\<open>required\<close>; its \<^verbatim>\<open>name\<close> is the field's name, the component's
  \<^verbatim>\<open>name\<close> prop. A valid field is always rendered.
\<close>

theorem render_props_six_members:
  "(c_render (el_props (FieldController props)) fld fs = Inr r \<longrightarrow>
     (\<exists>ps. r = fc_render props ps \<and>
        map fst ps = [''value'', ''name'', ''onBlur'', ''onChange'', ''error'', ''required''] \<and>
        map_of ps ''name'' = Some (NameProp (fc_name props)))) \<and>
   (\<not> fs_invalid fs \<longrightarrow>
      (\<exists>r. c_render (el_props (FieldController props)) fld fs = Inr r))"
proof (intro conjI impI)
  assume "c_render (el_props (FieldController props)) fld fs = Inr r"
  then have "controller_render (fc_name props) (fc_render props) (fc_required props) fld fs =
      Inr r"
    by (simp add: FieldController_render)
  from controller_render_returns [OF this]
  obtain err where
    r: "r = fc_render props (field_props (fc_name props) (fc_required props) fld err)"
    by blast
  show "\<exists>ps. r = fc_render props ps \<and>
        map fst ps = [''value'', ''name'', ''onBlur'', ''onChange'', ''error'', ''required''] \<and>
        map_of ps ''name'' = Some (NameProp (fc_name props))"
    by (intro exI [of _ "field_props (fc_name props) (fc_required props) fld err"])
      (simp add: r)
next
  assume "\<not> fs_invalid fs"
  then show "\<exists>r. c_render (el_props (FieldController props)) fld fs = Inr r"
    by (simp add: FieldController_render controller_render_valid)
qed

theorem render_props_six_members_witness:
  "c_render (el_props (FieldController
       \<lparr>fc_form = \<lparr>control = ()\<rparr>, fc_name = ''email'',
        fc_render = (\<lambda>ps :: (string \<times> (string, unit, string \<Rightarrow> unit) prop_value) list.
           (map fst ps, map_of ps ''name'')),
        fc_required = Some True\<rparr>))
     \<lparr>f_value = ''x'', f_onChange = (\<lambda>e :: string change_event. ()), f_onBlur = ()\<rparr>
     \<lparr>fs_invalid = False, fs_error = Undefined\<rparr> =
   Inr ([''value'', ''name'', ''onBlur'', ''onChange'', ''error'', ''required''],
        Some (NameProp ''email''))"
proof -
  let ?props = "\<lparr>fc_form = \<lparr>control = ()\<rparr>, fc_name = ''email'',
        fc_render = (\<lambda>ps :: (string \<times> (string, unit, string \<Rightarrow> unit) prop_value) list.
           (map fst ps, map_of ps ''name'')),
        fc_required = Some True\<rparr>"
  let ?fld = "\<lparr>f_value = ''x'', f_onChange = (\<lambda>e :: string change_event. ()), f_onBlur = ()\<rparr>"
  let ?fs = "\<lparr>fs_invalid = False, fs_error = Undefined\<rparr>"
  obtain r where r: "c_render (el_props (FieldController ?props)) ?fld ?fs = Inr r"
    by (simp add: FieldController_def controller_render_def)
  with render_props_six_members [of ?props ?fld ?fs r]
  have "r = ([''value'', ''name'', ''onBlur'', ''onChange'', ''error'', ''required''],
        Some (NameProp ''email''))"
    by auto
  with r show ?thesis by simp
qed

text \<open>
  C9: a property access does not change any array of the store. The \<^verbatim>\<open>get\<close> trap
  allocates a new array, the proxy's path followed by the key, and leaves every array
  allocated before, the proxy's own path and \<^verbatim>\<open>emptyPath\<close> among them, as it was. So the
  proxy returns the same element after the access as before, and a second access from
  the same proxy yields a path that does not contain the first key, in an array of its
  own.
\<close>

theorem proxy_get_leaves_paths_unchanged:
  assumes "p_path p < length h" and "proxy_get p k h = (p', h')"
  shows "(\<forall>a < length h. h' ! a = h ! a) \<and>
         h' ! p_path p = h ! p_path p \<and>
         \<not> p_path p' < length h \<and>
         p_path p' < length h' \<and>
         h' ! p_path p' = h ! p_path p @ [js_String k] \<and>
         p_form p' = p_form p \<and>
         proxy_apply p render h' = proxy_apply p render h \<and>
         (\<forall>k2 p2 h2. proxy_get p k2 h' = (p2, h2) \<longrightarrow>
            h2 ! p_path p' = h ! p_path p @ [js_String k] \<and>
            h2 ! p_path p2 = h ! p_path p @ [js_String k2] \<and>
            p_path p2 \<noteq> p_path p' \<and>
            proxy_apply p' render h2 = proxy_apply p' render h')"
proof -
  from assms(2) have p': "p' = \<lparr>p_form = p_form p, p_path = length h\<rparr>"
    and h': "h' = h @ [h ! p_path p @ [js_String k]]"
    by (simp_all add: proxy_get_eq)
  have old: "\<forall>a < length h. h' ! a = h ! a" by (simp add: h' nth_append)
  with assms(1) have same: "h' ! p_path p = h ! p_path p" by simp
  have new: "h' ! p_path p' = h ! p_path p @ [js_String k]" by (simp add: p' h')
  have second: "h2 ! p_path p' = h ! p_path p @ [js_String k] \<and>
            h2 ! p_path p2 = h ! p_path p @ [js_String k2] \<and>
            p_path p2 \<noteq> p_path p' \<and>
            proxy_apply p' render h2 = proxy_apply p' render h'"
    if "proxy_get p k2 h' = (p2, h2)" for k2 p2 h2
  proof -
    from that have p2: "p2 = \<lparr>p_form = p_form p, p_path = length h'\<rparr>"
      and h2: "h2 = h' @ [h' ! p_path p @ [js_String k2]]"
      by (simp_all add: proxy_get_eq)
    have keep: "h2 ! p_path p' = h' ! p_path p'" by (simp add: h2 p' h' nth_append)
    have "h2 ! p_path p2 = h' ! p_path p @ [js_String k2]" by (simp add: h2 p2)
    with keep new same proxy_apply_same_path [OF keep] show ?thesis
      by (simp add: p2 p' h')
  qed
  from old same new second proxy_apply_same_path [OF same] show ?thesis
    by (simp add: p' h')
qed

theorem proxy_get_leaves_paths_unchanged_witness:
  "p_path (createControllerProxy \<lparr>control = ()\<rparr>) < length module_heap \<and>
   proxy_get (createControllerProxy \<lparr>control = ()\<rparr>) (StringKey ''first'') module_heap =
     (\<lparr>p_form = \<lparr>control = ()\<rparr>, p_path = 1\<rparr>, [[], [''first'']]) \<and>
   proxy_get (createControllerProxy \<lparr>control = ()\<rparr>) (StringKey ''second'') [[], [''first'']] =
     (\<lparr>p_form = \<lparr>control = ()\<rparr>, p_path = 2\<rparr>, [[], [''first''], [''second'']]) \<and>
   [[], [''first''], [''second'']] ! emptyPath = module_heap ! emptyPath \<and>
   fc_name (el_props (proxy_apply \<lparr>p_form = \<lparr>control = ()\<rparr>, p_path = 1\<rparr> ()
     [[], [''first''], [''second'']])) = ''first'' \<and>
   fc_name (el_props (proxy_apply \<lparr>p_form = \<lparr>control = ()\<rparr>, p_path = 2\<rparr> ()
     [[], [''first''], [''second'']])) = ''second''"
proof -
  let ?root = "createControllerProxy \<lparr>control = ()\<rparr>"
  let ?p1 = "\<lparr>p_form = \<lparr>control = ()\<rparr>, p_path = 1\<rparr>"
  let ?p2 = "\<lparr>p_form = \<lparr>control = ()\<rparr>, p_path = 2\<rparr>"
  have valid: "p_path ?root < length module_heap"
    by (simp add: createControllerProxy_def createControllerProxyImpl_def emptyPath_def
        module_heap_def)
  have first: "proxy_get ?root (StringKey ''first'') module_heap = (?p1, [[], [''first'']])"
    by (simp add: proxy_get_eq createControllerProxy_def createControllerProxyImpl_def
        emptyPath_def module_heap_def)
  have snd: "proxy_get ?root (StringKey ''second'') [[], [''first'']] =
      (?p2, [[], [''first''], [''second'']])"
    by (simp add: proxy_get_eq createControllerProxy_def createControllerProxyImpl_def
        emptyPath_def)
  from proxy_get_leaves_paths_unchanged [OF valid first, of "()"] snd
  have "[[], [''first''], [''second'']] ! p_path ?p1 = module_heap ! p_path ?root @ [''first'']"
    "[[], [''first''], [''second'']] ! p_path ?p2 = module_heap ! p_path ?root @ [''second'']"
    by auto
  then have "fc_name (el_props (proxy_apply ?p1 () [[], [''first''], [''second'']])) = ''first''"
    "fc_name (el_props (proxy_apply ?p2 () [[], [''first''], [''second'']])) = ''second''"
    by (simp_all add: proxy_apply_props createControllerProxy_def createControllerProxyImpl_def
        emptyPath_def module_heap_def)
  with valid first snd show ?thesis
    by (simp add: emptyPath_def module_heap_def)
qed

text \<open>
  C10: an object with a \<^verbatim>\<open>message\<close> member is a leaf: \<^verbatim>\<open>flattenErrors\<close> returns that
  member, also when it is \<^verbatim>\<open>undefined\<close>. For an object without one, the join turns each
  \<^verbatim>\<open>undefined\<close> result of a property value into an empty segment: the string has one
  segment for each property, so a branch without a message adds an empty line and is
  not left out.
\<close>

theorem flattenErrors_leaf_and_empty_segments:
  "(''message'' \<in> set (map fst ps) \<longrightarrow>
      flattenErrors (Obj ps) = Inr (js_get (Obj ps) ''message'')) \<and>
   flattenErrors (Obj [(''message'', Undefined)]) = Inr Undefined \<and>
   join_elem Undefined = [] \<and>
   (''message'' \<notin> set (map fst ps) \<longrightarrow> array_map flattenErrors (map snd ps) = Inr rs \<longrightarrow>
      flattenErrors (Obj ps) = Inr (Str (join_str [CHR 0x0A] (map join_elem rs))) \<and>
      length (map join_elem rs) = length ps)"
  by (auto simp: flattenErrors_leaf flattenErrors_branch join_elem_def array_join_def
      dest: array_map_length)

theorem flattenErrors_leaf_and_empty_segments_witness:
  "''message'' \<in> set (map fst [(''type'', Str ''required''), (''message'', Undefined)]) \<and>
   flattenErrors (Obj [(''type'', Str ''required''), (''message'', Undefined)]) = Inr Undefined \<and>
   ''message'' \<notin> set (map fst [(''first'', Obj [(''message'', Undefined)]),
        (''second'', Undefined), (''third'', Obj [(''message'', Str ''Too short'')])]) \<and>
   array_map flattenErrors (map snd [(''first'', Obj [(''message'', Undefined)]),
        (''second'', Undefined), (''third'', Obj [(''message'', Str ''Too short'')])]) =
     Inr [Undefined, Undefined, Str ''Too short''] \<and>
   flattenErrors (Obj [(''first'', Obj [(''message'', Undefined)]),
        (''second'', Undefined), (''third'', Obj [(''message'', Str ''Too short'')])]) =
     Inr (Str [CHR 0x0A, CHR 0x0A, CHR ''T'', CHR ''o'', CHR ''o'', CHR '' '', CHR ''s'',
               CHR ''h'', CHR ''o'', CHR ''r'', CHR ''t''])"
proof -
  have a: "''message'' \<in> set (map fst [(''type'', Str ''required''), (''message'', Undefined)])"
    by simp
  have b: "''message'' \<notin> set (map fst [(''first'', Obj [(''message'', Undefined)]),
        (''second'', Undefined), (''third'', Obj [(''message'', Str ''Too short'')])])"
    by simp
  have c: "array_map flattenErrors (map snd [(''first'', Obj [(''message'', Undefined)]),
        (''second'', Undefined), (''third'', Obj [(''message'', Str ''Too short'')])]) =
     Inr [Undefined, Undefined, Str ''Too short'']"
    by (simp add: flattenErrors_leaf flattenErrors_falsy)
  from flattenErrors_leaf_and_empty_segments
    [of "[(''type'', Str ''required''), (''message'', Undefined)]"]
    flattenErrors_leaf_and_empty_segments
    [of "[(''first'', Obj [(''message'', Undefined)]),
        (''second'', Undefined), (''third'', Obj [(''message'', Str ''Too short'')])]"
      "[Undefined, Undefined, Str ''Too short'']"]
    a b c
  show ?thesis by (simp add: join_elem_def)
qed

end
